theory Spec2Isabelle
  imports Complex_Main "HOL-Library.Sublist"
begin

section \<open>Strings and character classes\<close>

text \<open>
  A JavaScript string is a sequence of UTF-16 code units; it is modelled as a
  \<open>string\<close>, one \<open>char\<close> per code unit, so the model covers the code units
  0..255. Numbers are IEEE doubles in the source and reals here.
\<close>

abbreviation NL :: char where
  "NL \<equiv> CHR 0x0A"

text \<open>The regular expression class \<open>\d\<close>: the ten ASCII digits.\<close>

definition is_digit :: "char \<Rightarrow> bool" where
  "is_digit c = (c \<in> set ''0123456789'')"

text \<open>
  White space as \<open>\s\<close> and \<open>String.prototype.trim\<close> see it: tab, line feed,
  vertical tab, form feed, carriage return, space and no-break space (the white
  space and line terminators below 256).
\<close>

definition is_space :: "char \<Rightarrow> bool" where
  "is_space c = (c \<in> set [CHR 0x09, NL, CHR 0x0B, CHR 0x0C, CHR 0x0D, CHR '' '', CHR 0xA0])"

text \<open>The characters the regular expression \<open>.\<close> refuses: the line terminators.\<close>

definition is_line_terminator :: "char \<Rightarrow> bool" where
  "is_line_terminator c = (c \<in> set [NL, CHR 0x0D])"

text \<open>The class \<open>[.!?]\<close> of the sentence pattern.\<close>

definition is_terminator :: "char \<Rightarrow> bool" where
  "is_terminator c = (c \<in> set ''.!?'')"

definition trim :: "string \<Rightarrow> string" where
  "trim s = rev (dropWhile is_space (rev (dropWhile is_space s)))"

definition digit_val :: "char \<Rightarrow> nat" where
  "digit_val c = of_char c - 48"

text \<open>\<open>parseInt\<close> on a captured group of decimal digits.\<close>

definition parseInt :: "string \<Rightarrow> nat" where
  "parseInt ds = foldl (\<lambda>acc c. acc * 10 + digit_val c) 0 ds"

text \<open>\<open>\d{n}\<close>: exactly \<open>n\<close> digits; the captured digits and the rest.\<close>

fun take_digits :: "nat \<Rightarrow> string \<Rightarrow> (string \<times> string) option" where
  "take_digits 0 s = Some ([], s)"
| "take_digits (Suc n) [] = None"
| "take_digits (Suc n) (c # cs) =
     (if is_digit c
      then (case take_digits n cs of None \<Rightarrow> None | Some (ds, r) \<Rightarrow> Some (c # ds, r))
      else None)"

text \<open>A literal of a pattern: the rest of the input after it.\<close>

fun expect :: "string \<Rightarrow> string \<Rightarrow> string option" where
  "expect [] s = Some s"
| "expect (l # ls) [] = None"
| "expect (l # ls) (c # cs) = (if l = c then expect ls cs else None)"

section \<open>Segments\<close>

record segment =
  start :: real
  end' :: real
  text' :: string
  score :: real

section \<open>The subtitle-block strategy\<close>

text \<open>
  \<open>(\d{2}):(\d{2}):(\d{2}),(\d{3})\<close>: the four captured groups of one time
  code and the rest of the input.
\<close>

definition timecode :: "string \<Rightarrow> ((string \<times> string \<times> string \<times> string) \<times> string) option" where
  "timecode s =
     (case take_digits 2 s of None \<Rightarrow> None | Some (h, s1) \<Rightarrow>
      case expect '':'' s1 of None \<Rightarrow> None | Some s2 \<Rightarrow>
      case take_digits 2 s2 of None \<Rightarrow> None | Some (m, s3) \<Rightarrow>
      case expect '':'' s3 of None \<Rightarrow> None | Some s4 \<Rightarrow>
      case take_digits 2 s4 of None \<Rightarrow> None | Some (sec, s5) \<Rightarrow>
      case expect '','' s5 of None \<Rightarrow> None | Some s6 \<Rightarrow>
      case take_digits 3 s6 of None \<Rightarrow> None | Some (ms, s7) \<Rightarrow>
      Some ((h, m, sec, ms), s7))"

text \<open>The lookahead \<open>(?=\n\n|\n*$)\<close>: a blank line follows, or only line feeds do.\<close>

definition block_end :: "string \<Rightarrow> bool" where
  "block_end s = (take 2 s = [NL, NL] \<or> list_all (\<lambda>c. c = NL) s)"

text \<open>
  The lazy group \<open>([\s\S]*?)\<close> before the lookahead: the shortest prefix after
  which the lookahead holds, and the rest of the input.
\<close>

fun lazy_text :: "string \<Rightarrow> string \<times> string" where
  "lazy_text [] = ([], [])"
| "lazy_text (c # cs) =
     (if block_end (c # cs) then ([], c # cs)
      else (case lazy_text cs of (t, r) \<Rightarrow> (c # t, r)))"

text \<open>
  One attempt of \<open>srtPattern\<close> at the head of the input: the segment the loop
  body pushes for the match, and the input after the match. \<open>(\d+)\n\<close> is the
  longest run of digits, not empty, and a line feed.
\<close>

definition srt_at :: "string \<Rightarrow> (segment \<times> string) option" where
  "srt_at s =
     (if takeWhile is_digit s = [] then None else
      case expect [NL] (dropWhile is_digit s) of None \<Rightarrow> None | Some s1 \<Rightarrow>
      case timecode s1 of None \<Rightarrow> None | Some ((startHours, startMinutes, startSeconds, startMs), s2) \<Rightarrow>
      case expect '' --> '' s2 of None \<Rightarrow> None | Some s3 \<Rightarrow>
      case timecode s3 of None \<Rightarrow> None | Some ((endHours, endMinutes, endSeconds, endMs), s4) \<Rightarrow>
      case expect [NL] s4 of None \<Rightarrow> None | Some s5 \<Rightarrow>
      case lazy_text s5 of (body, rest) \<Rightarrow>
      Some (\<lparr> start = real (parseInt startHours) * 3600 + real (parseInt startMinutes) * 60
                     + real (parseInt startSeconds) + real (parseInt startMs) / 1000,
              end' = real (parseInt endHours) * 3600 + real (parseInt endMinutes) * 60
                     + real (parseInt endSeconds) + real (parseInt endMs) / 1000,
              text' = map (\<lambda>c. if c = NL then CHR '' '' else c) (trim body),
              score = 0 \<rparr>, rest))"

text \<open>A match is never empty: what is left after it is shorter than the input.\<close>

lemma take_digits_length:
  "take_digits n s = Some (ds, r) \<Longrightarrow> length r \<le> length s"
  by (induction n s arbitrary: ds r rule: take_digits.induct)
     (auto split: if_splits option.splits)

lemma expect_length:
  "expect l s = Some r \<Longrightarrow> length r \<le> length s"
  by (induction l s rule: expect.induct) (auto split: if_splits)

lemma timecode_length:
  "timecode s = Some (g, r) \<Longrightarrow> length r \<le> length s"
  unfolding timecode_def
  by (fastforce split: option.splits prod.splits
        dest: take_digits_length expect_length)

lemma lazy_text_length:
  "lazy_text s = (t, r) \<Longrightarrow> length r \<le> length s"
  by (induction s arbitrary: t r) (auto split: if_splits prod.splits)

lemma srt_at_consumes:
  assumes "srt_at s = Some (seg, rest)"
  shows "length rest < length s"
proof -
  from assms have d: "takeWhile is_digit s \<noteq> []"
    by (auto simp: srt_at_def split: if_splits)
  have "length (takeWhile is_digit s) + length (dropWhile is_digit s) = length s"
    by (metis length_append takeWhile_dropWhile_id)
  with d have lt: "length (dropWhile is_digit s) < length s"
    by (cases "takeWhile is_digit s") auto
  from assms d have "length rest \<le> length (dropWhile is_digit s)"
    unfolding srt_at_def
    by (fastforce split: option.splits prod.splits
          dest: timecode_length expect_length lazy_text_length)
  with lt show ?thesis by simp
qed

text \<open>
  The loop \<open>while ((match = srtPattern.exec(content)) !== null)\<close>: the global
  pattern is tried at the current position and then one character further until
  it matches; the next search starts where the match ended.
\<close>

function srt_scan :: "string \<Rightarrow> segment list" where
  "srt_scan s =
     (case srt_at s of
        Some (seg, rest) \<Rightarrow> seg # srt_scan rest
      | None \<Rightarrow> (case s of [] \<Rightarrow> [] | c # cs \<Rightarrow> srt_scan cs))"
  by pat_completeness auto
termination
  by (relation "measure length") (auto dest: srt_at_consumes)

declare srt_scan.simps [simp del]

section \<open>The bracketed-timestamp strategy\<close>

text \<open>\<open>content.split('\n')\<close>.\<close>

fun split_lines :: "string \<Rightarrow> string list" where
  "split_lines [] = [[]]"
| "split_lines (c # cs) =
     (if c = NL then [] # split_lines cs
      else (case split_lines cs of [] \<Rightarrow> [[c]] | l # ls \<Rightarrow> (c # l) # ls))"

text \<open>
  One attempt of \<open>timestampPattern\<close> at the head of a line: the three captured
  digit groups and the fourth group \<open>(.*)\<close>, which follows the white space
  \<open>\s*\<close> and stops at a line terminator.
\<close>

definition bracket_at :: "string \<Rightarrow> (string \<times> string \<times> string \<times> string) option" where
  "bracket_at s =
     (case expect ''['' s of None \<Rightarrow> None | Some s1 \<Rightarrow>
      case take_digits 2 s1 of None \<Rightarrow> None | Some (h, s2) \<Rightarrow>
      case expect '':'' s2 of None \<Rightarrow> None | Some s3 \<Rightarrow>
      case take_digits 2 s3 of None \<Rightarrow> None | Some (m, s4) \<Rightarrow>
      case expect '':'' s4 of None \<Rightarrow> None | Some s5 \<Rightarrow>
      case take_digits 2 s5 of None \<Rightarrow> None | Some (sec, s6) \<Rightarrow>
      case expect '']'' s6 of None \<Rightarrow> None | Some s7 \<Rightarrow>
      Some (h, m, sec, takeWhile (\<lambda>c. \<not> is_line_terminator c) (dropWhile is_space s7)))"

text \<open>\<open>lines[i].match(timestampPattern)\<close>: the leftmost match in the line.\<close>

fun bracket_match :: "string \<Rightarrow> (string \<times> string \<times> string \<times> string) option" where
  "bracket_match [] = None"
| "bracket_match (c # cs) =
     (case bracket_at (c # cs) of Some g \<Rightarrow> Some g | None \<Rightarrow> bracket_match cs)"

text \<open>The body of the \<open>for\<close> loop at index \<open>i\<close>: the segments it pushes.\<close>

definition bracket_line :: "nat \<Rightarrow> nat \<Rightarrow> string \<Rightarrow> segment list" where
  "bracket_line n i line =
     (case bracket_match line of
        None \<Rightarrow> []
      | Some (hours, minutes, seconds, body) \<Rightarrow>
          (let start = real (parseInt hours) * 3600 + real (parseInt minutes) * 60
                       + real (parseInt seconds);
               end = (if i < n - 1 then start + 5 else start + 5)
           in [\<lparr> start = start, end' = end, text' = trim body, score = 0 \<rparr>]))"

definition bracket_segments :: "string \<Rightarrow> segment list" where
  "bracket_segments content =
     (let lines = filter (\<lambda>line. trim line \<noteq> []) (split_lines content)
      in concat (map (\<lambda>(i, line). bracket_line (length lines) i line) (enumerate 0 lines)))"

section \<open>The plain-text strategy\<close>

text \<open>
  One attempt of \<open>[^.!?]+[.!?]+\<close> at the head of the input: the longest run of
  other characters, not empty, then the longest run of terminators, not empty
  (a shorter first run is followed by a character that is no terminator, so
  backtracking finds no other match); the match and the input after it.
\<close>

definition sentence_at :: "string \<Rightarrow> (string \<times> string) option" where
  "sentence_at s =
     (let body = takeWhile (\<lambda>c. \<not> is_terminator c) s;
          r = dropWhile (\<lambda>c. \<not> is_terminator c) s;
          stops = takeWhile is_terminator r
      in if body = [] \<or> stops = [] then None
         else Some (body @ stops, dropWhile is_terminator r))"

text \<open>Here too a match is never empty.\<close>

lemma sentence_at_consumes:
  assumes "sentence_at s = Some (m, rest)"
  shows "length rest < length s"
proof -
  let ?r = "dropWhile (\<lambda>c. \<not> is_terminator c) s"
  from assms have b: "takeWhile (\<lambda>c. \<not> is_terminator c) s \<noteq> []"
    and rest: "rest = dropWhile is_terminator ?r"
    by (auto simp: sentence_at_def Let_def split: if_splits)
  have "length (takeWhile (\<lambda>c. \<not> is_terminator c) s) + length ?r = length s"
    by (metis length_append takeWhile_dropWhile_id)
  with b have "length ?r < length s"
    by (cases "takeWhile (\<lambda>c. \<not> is_terminator c) s") auto
  moreover have "length rest \<le> length ?r"
    unfolding rest by (rule length_dropWhile_le)
  ultimately show ?thesis by simp
qed

text \<open>\<open>content.match(/[^.!?]+[.!?]+/g)\<close>: all matches, left to right.\<close>

function sentence_scan :: "string \<Rightarrow> string list" where
  "sentence_scan s =
     (case sentence_at s of
        Some (m, rest) \<Rightarrow> m # sentence_scan rest
      | None \<Rightarrow> (case s of [] \<Rightarrow> [] | c # cs \<Rightarrow> sentence_scan cs))"
  by pat_completeness auto
termination
  by (relation "measure length") (auto dest: sentence_at_consumes)

declare sentence_scan.simps [simp del]

text \<open>\<open>content.match(...) || [content]\<close>: \<open>match\<close> is \<open>null\<close> when nothing matches.\<close>

definition sentences :: "string \<Rightarrow> string list" where
  "sentences content =
     (case sentence_scan content of [] \<Rightarrow> [content] | m # ms \<Rightarrow> m # ms)"

text \<open>
  The \<open>forEach\<close> over the sentences, with \<open>currentTime\<close> passed along: the
  segments pushed from \<open>currentTime\<close> on.
\<close>

fun layout :: "real \<Rightarrow> string list \<Rightarrow> segment list" where
  "layout currentTime [] = []"
| "layout currentTime (sentence # rest) =
     (let text = trim sentence;
          duration = max 3 (min 10 (real (length text) / 10))
      in \<lparr> start = currentTime, end' = currentTime + duration, text' = text, score = 0 \<rparr>
         # layout (currentTime + duration) rest)"

definition plain_segments :: "string \<Rightarrow> segment list" where
  "plain_segments content = layout 0 (sentences content)"

section \<open>parseTranscript\<close>

text \<open>\<open>parseTranscript\<close> of the upload entry point (\<open>route.ts\<close>).\<close>

definition parseTranscript :: "string \<Rightarrow> segment list" where
  "parseTranscript content =
     (let segments = srt_scan content;
          segments = (if length segments = 0 then bracket_segments content else segments);
          segments = (if length segments = 0 then plain_segments content else segments)
      in segments)"

text \<open>\<open>parseTranscript\<close> of the webhook entry point: no bracketed strategy.\<close>

definition parseTranscript_webhook :: "string \<Rightarrow> segment list" where
  "parseTranscript_webhook content =
     (let segments = srt_scan content;
          segments = (if length segments = 0 then plain_segments content else segments)
      in segments)"

section \<open>Scoring and filtering\<close>

text \<open>
  A JavaScript number that can be a threshold: \<open>NaN\<close>, an infinity or a finite
  value.
\<close>

datatype number = NaN | PosInfinity | NegInfinity | Num real

text \<open>\<open>score >= threshold\<close> for a finite score: false against \<open>NaN\<close>.\<close>

fun ge_number :: "real \<Rightarrow> number \<Rightarrow> bool" where
  "ge_number x NaN = False"
| "ge_number x PosInfinity = False"
| "ge_number x NegInfinity = True"
| "ge_number x (Num t) = (t \<le> x)"

text \<open>
  \<open>analyzeSentiment\<close>, the same in both entry points. The scorer
  \<open>sentiment.analyze(text).score\<close> belongs to a library and is the parameter
  \<open>analyze\<close>. The \<open>map\<close> builds new segments; the argument is left as it was.
\<close>

definition analyzeSentiment :: "(string \<Rightarrow> real) \<Rightarrow> segment list \<Rightarrow> number \<Rightarrow> segment list" where
  "analyzeSentiment analyze segments threshold =
     (let analyzedSegments = map (\<lambda>segment. segment\<lparr> score := analyze (text' segment) \<rparr>) segments
      in filter (\<lambda>segment. ge_number (score segment) threshold) analyzedSegments)"

section \<open>The edit command\<close>

abbreviation DQ :: char where
  "DQ \<equiv> CHR 0x22"

text \<open>\<open>Array.prototype.join\<close>.\<close>

fun join :: "string \<Rightarrow> string list \<Rightarrow> string" where
  "join sep [] = []"
| "join sep [x] = x"
| "join sep (x # y # ys) = x @ sep @ join sep (y # ys)"

text \<open>
  The template literals of both handlers. How a number is printed inside a
  template is the parameter \<open>show\<close>.
\<close>

definition ffmpeg :: "(real \<Rightarrow> string) \<Rightarrow> string \<Rightarrow> segment list \<Rightarrow> string option" where
  "ffmpeg show url matching =
     (let filterComplex = join ''; '' (map (\<lambda>(idx, seg).
            ''[0:v]trim=start='' @ show (start seg) @ '':end='' @ show (end' seg)
            @ '',setpts=PTS-STARTPTS[v'' @ show (real idx) @ '']; [0:a]atrim=start=''
            @ show (start seg) @ '':end='' @ show (end' seg)
            @ '',asetpts=PTS-STARTPTS[a'' @ show (real idx) @ '']'') (enumerate 0 matching));
          concatInputs = concat (map (\<lambda>(idx, seg).
            ''[v'' @ show (real idx) @ ''][a'' @ show (real idx) @ '']'') (enumerate 0 matching))
      in if length matching > 0
         then Some (''ffmpeg -i '' @ [DQ] @ url @ [DQ] @ '' -filter_complex '' @ [DQ]
                    @ filterComplex @ ''; '' @ concatInputs @ ''concat=n=''
                    @ show (real (length matching)) @ '':v=1:a=1[outv][outa]'' @ [DQ]
                    @ '' -map '' @ [DQ] @ ''[outv]'' @ [DQ] @ '' -map '' @ [DQ] @ ''[outa]''
                    @ [DQ] @ '' output.mp4'')
         else None)"

section \<open>The two entry points\<close>

text \<open>
  The fields both responses share. \<open>ffmpegCommand\<close> is \<open>None\<close> for \<open>null\<close>.
\<close>

record result =
  videoUrl :: string
  threshold :: number
  totalSegments :: nat
  matchingSegments :: nat
  averageSentiment :: real
  segments :: "segment list"
  ffmpegCommand :: "string option"

text \<open>A response: an error message with its status, or the result object.\<close>

datatype response = Failure nat string | Success result

text \<open>
  A prefix of \<open>parseFloat\<close>'s grammar: an optional sign, and an exponent part
  (0 when there is none).
\<close>

definition sign_prefix :: "string \<Rightarrow> bool \<times> string" where
  "sign_prefix s =
     (case s of
        [] \<Rightarrow> (False, [])
      | c # cs \<Rightarrow> if c = CHR ''-'' then (True, cs)
                  else if c = CHR ''+'' then (False, cs) else (False, s))"

definition exponent :: "string \<Rightarrow> int" where
  "exponent s =
     (case s of
        [] \<Rightarrow> 0
      | c # cs \<Rightarrow>
          if c = CHR ''e'' \<or> c = CHR ''E''
          then (case sign_prefix cs of (neg, r) \<Rightarrow>
                  let ds = takeWhile is_digit r
                  in if ds = [] then 0
                     else if neg then - int (parseInt ds) else int (parseInt ds))
          else 0)"

text \<open>
  \<open>parseFloat\<close>: leading white space is skipped, the longest prefix that is a
  decimal literal is read, and \<open>NaN\<close> is returned when there is none. The value
  is the exact decimal (no rounding to a double).
\<close>

definition parseFloat :: "string \<Rightarrow> number" where
  "parseFloat s =
     (case sign_prefix (dropWhile is_space s) of (neg, u) \<Rightarrow>
        if take 8 u = ''Infinity'' then (if neg then NegInfinity else PosInfinity)
        else
          let ip = takeWhile is_digit u;
              r1 = dropWhile is_digit u;
              fp = (case r1 of [] \<Rightarrow> []
                    | c # cs \<Rightarrow> if c = CHR ''.'' then takeWhile is_digit cs else []);
              r2 = (case r1 of [] \<Rightarrow> []
                    | c # cs \<Rightarrow> if c = CHR ''.'' then dropWhile is_digit cs else r1)
          in if ip = [] \<and> fp = [] then NaN
             else
               let m = real (parseInt ip) + real (parseInt fp) / 10 ^ length fp;
                   e = exponent r2;
                   v = (if 0 \<le> e then m * 10 ^ nat e else m / 10 ^ nat (- e))
               in Num (if neg then - v else v))"

text \<open>
  \<open>POST\<close> of the upload entry point (\<open>route.ts\<close>). The form fields are
  \<open>None\<close> when the form has no such field; \<open>transcriptFile\<close> is the text of the
  uploaded file. \<open>formData.get\<close> gives \<open>null\<close> for a missing field, which
  \<open>parseFloat\<close> reads as the string \<open>null\<close>.
\<close>

definition POST :: "(string \<Rightarrow> real) \<Rightarrow> (real \<Rightarrow> string) \<Rightarrow>
    string option \<Rightarrow> string option \<Rightarrow> string option \<Rightarrow> response" where
  "POST analyze show transcriptFile videoUrl_field threshold_field =
     (let threshold = parseFloat (case threshold_field of None \<Rightarrow> ''null'' | Some t \<Rightarrow> t)
      in case transcriptFile of
           None \<Rightarrow> Failure 400 ''Missing required fields''
         | Some transcriptContent \<Rightarrow>
             (case videoUrl_field of
                None \<Rightarrow> Failure 400 ''Missing required fields''
              | Some url \<Rightarrow>
                  if url = [] then Failure 400 ''Missing required fields''
                  else
                    let segs = parseTranscript transcriptContent
                    in if length segs = 0
                       then Failure 400 ''Could not parse transcript. Please use SRT format or plain text with timestamps.''
                       else
                         let matching = analyzeSentiment analyze segs threshold;
                             totalScore = foldl (\<lambda>sum seg. sum + score seg) 0 segs
                         in Success \<lparr> videoUrl = url,
                                      threshold = threshold,
                                      totalSegments = length segs,
                                      matchingSegments = length matching,
                                      averageSentiment = totalScore / real (length segs),
                                      segments = matching,
                                      ffmpegCommand = ffmpeg show url matching \<rparr>))"

text \<open>
  \<open>POST\<close> of the webhook entry point. The fields of the JSON body are
  \<open>None\<close> when the body has no such key, else strings, and a number for
  \<open>threshold\<close>; the destructuring default \<open>threshold = 0\<close> applies to a missing
  key.
\<close>

definition POST_webhook :: "(string \<Rightarrow> real) \<Rightarrow> (real \<Rightarrow> string) \<Rightarrow>
    string option \<Rightarrow> string option \<Rightarrow> string option \<Rightarrow> number option \<Rightarrow> response" where
  "POST_webhook analyze show transcript transcriptContent videoUrl_field threshold_field =
     (let threshold = (case threshold_field of None \<Rightarrow> Num 0 | Some t \<Rightarrow> t)
      in case videoUrl_field of
           None \<Rightarrow> Failure 400 ''videoUrl is required''
         | Some url \<Rightarrow>
             if url = [] then Failure 400 ''videoUrl is required''
             else
               (case (if transcriptContent = None \<or> transcriptContent = Some []
                      then transcript else transcriptContent) of
                  None \<Rightarrow> Failure 400 ''transcript or transcriptContent is required''
                | Some content \<Rightarrow>
                    if content = [] then Failure 400 ''transcript or transcriptContent is required''
                    else
                      let segs = parseTranscript_webhook content
                      in if length segs = 0 then Failure 400 ''Could not parse transcript''
                         else
                           let matching = analyzeSentiment analyze segs threshold;
                               totalScore = foldl (\<lambda>sum seg. sum + score seg) 0 segs
                           in Success \<lparr> videoUrl = url,
                                        threshold = threshold,
                                        totalSegments = length segs,
                                        matchingSegments = length matching,
                                        averageSentiment = totalScore / real (length segs),
                                        segments = matching,
                                        ffmpegCommand = ffmpeg show url matching \<rparr>))"

section \<open>The aggregate as the specification words it\<close>

text \<open>
  The Statistics Aggregator of the specification: the sum of the scores the
  scorer assigns to all segments, divided by the number of segments.
\<close>

definition spec_averageSentiment :: "(string \<Rightarrow> real) \<Rightarrow> segment list \<Rightarrow> real" where
  "spec_averageSentiment analyze segs =
     sum_list (map (\<lambda>seg. analyze (text' seg)) segs) / real (length segs)"


section \<open>Facts about the segmenter\<close>

lemma sentences_nonempty: "sentences content \<noteq> []"
  by (simp add: sentences_def split: list.split)

lemma layout_length: "length (layout t xs) = length xs"
  by (induction xs arbitrary: t) (simp_all add: Let_def)

lemma plain_segments_nonempty: "plain_segments content \<noteq> []"
  using sentences_nonempty [of content] layout_length [of 0 "sentences content"]
  by (metis length_0_conv plain_segments_def)

lemma parseTranscript_nonempty: "parseTranscript content \<noteq> []"
  by (simp add: parseTranscript_def Let_def plain_segments_nonempty)

lemma parseTranscript_webhook_nonempty: "parseTranscript_webhook content \<noteq> []"
  by (simp add: parseTranscript_webhook_def Let_def plain_segments_nonempty)

lemma srt_at_score: "srt_at s = Some (seg, rest) \<Longrightarrow> score seg = 0"
  by (auto simp: srt_at_def split: if_splits option.splits prod.splits)

lemma srt_scan_Nil: "srt_scan [] = []"
  by (simp add: srt_scan.simps [of "[]"] srt_at_def)

lemma srt_scan_Some: "srt_at s = Some (seg, rest) \<Longrightarrow> srt_scan s = seg # srt_scan rest"
  by (simp add: srt_scan.simps [of s])

lemma srt_scan_None: "srt_at (c # cs) = None \<Longrightarrow> srt_scan (c # cs) = srt_scan cs"
  by (simp add: srt_scan.simps [of "c # cs"])

lemma srt_scan_score: "seg \<in> set (srt_scan s) \<Longrightarrow> score seg = 0"
proof (induction s rule: srt_scan.induct)
  case (1 s)
  show ?case
  proof (cases "srt_at s")
    case None
    show ?thesis
    proof (cases s)
      case Nil
      with "1.prems" show ?thesis by (simp add: srt_scan_Nil)
    next
      case (Cons c cs)
      with None "1.prems" have "seg \<in> set (srt_scan cs)"
        by (simp add: srt_scan_None)
      with None Cons "1.IH" show ?thesis by blast
    qed
  next
    case (Some p)
    obtain sg rest where p: "p = (sg, rest)" by (cases p)
    with Some "1.prems" have "seg = sg \<or> seg \<in> set (srt_scan rest)"
      by (simp add: srt_scan_Some)
    with Some p "1.IH" srt_at_score show ?thesis by blast
  qed
qed

lemma bracket_segments_score: "seg \<in> set (bracket_segments content) \<Longrightarrow> score seg = 0"
  by (auto simp: bracket_segments_def bracket_line_def Let_def split: option.splits prod.splits)

lemma layout_score: "seg \<in> set (layout t xs) \<Longrightarrow> score seg = 0"
  by (induction xs arbitrary: t) (auto simp: Let_def)

lemma parseTranscript_score: "seg \<in> set (parseTranscript content) \<Longrightarrow> score seg = 0"
  by (auto simp: parseTranscript_def Let_def plain_segments_def
        dest: srt_scan_score bracket_segments_score layout_score split: if_splits)

lemma parseTranscript_webhook_score:
  "seg \<in> set (parseTranscript_webhook content) \<Longrightarrow> score seg = 0"
  by (auto simp: parseTranscript_webhook_def Let_def plain_segments_def
        dest: srt_scan_score layout_score split: if_splits)

lemma totalScore_zero:
  "(\<And>seg. seg \<in> set segs \<Longrightarrow> score seg = 0) \<Longrightarrow> foldl (\<lambda>sum seg. sum + score seg) a segs = a"
  by (induction segs arbitrary: a) auto

lemma POST_averageSentiment:
  "POST analyze show f u t = Success r \<Longrightarrow> averageSentiment r = 0"
  by (auto simp: POST_def Let_def totalScore_zero [OF parseTranscript_score]
        split: option.splits if_splits)

lemma POST_webhook_averageSentiment:
  "POST_webhook analyze show tr tc u t = Success r \<Longrightarrow> averageSentiment r = 0"
  by (auto simp: POST_webhook_def Let_def totalScore_zero [OF parseTranscript_webhook_score]
        split: option.splits if_splits)

section \<open>The sentence pattern\<close>











section \<open>The layout of the sentences\<close>




section \<open>Time codes\<close>









section \<open>The order of the strategies\<close>

lemma bracket_line_no_index:
  "bracket_line n i line =
     (case bracket_match line of
        None \<Rightarrow> []
      | Some (h, m, s, body) \<Rightarrow>
          [\<lparr> start = real (parseInt h) * 3600 + real (parseInt m) * 60 + real (parseInt s),
             end' = real (parseInt h) * 3600 + real (parseInt m) * 60 + real (parseInt s) + 5,
             text' = trim body, score = 0 \<rparr>])"
  by (simp add: bracket_line_def Let_def split: option.split)

lemma map_enumerate_no_index:
  "map (\<lambda>(i, x). f x) (enumerate k xs) = map f xs"
  by (induction xs arbitrary: k) auto

lemma bracket_segments_lines:
  "bracket_segments content =
     concat (map (\<lambda>line. case bracket_match line of
                None \<Rightarrow> []
              | Some (h, m, s, body) \<Rightarrow>
                  [\<lparr> start = real (parseInt h) * 3600 + real (parseInt m) * 60 + real (parseInt s),
                     end' = real (parseInt h) * 3600 + real (parseInt m) * 60 + real (parseInt s) + 5,
                     text' = trim body, score = 0 \<rparr>])
             (filter (\<lambda>line. trim line \<noteq> []) (split_lines content)))"
  unfolding bracket_segments_def Let_def bracket_line_no_index
  by (simp only: map_enumerate_no_index)

lemma bracket_segments_five:
  "list_all (\<lambda>seg. end' seg = start seg + 5) (bracket_segments content)"
  unfolding bracket_segments_lines
  by (induction "filter (\<lambda>line. trim line \<noteq> []) (split_lines content)")
     (auto simp: list_all_iff split: option.splits)

section \<open>The edit command is there when a segment is kept\<close>

lemma ffmpeg_None: "(ffmpeg show url matching = None) = (matching = [])"
  by (simp add: ffmpeg_def Let_def)

lemma ffmpeg_not_empty: "ffmpeg show url matching \<noteq> Some []"
  by (simp add: ffmpeg_def Let_def)

section \<open>Runs on concrete inputs\<close>

lemma parseTranscript_empty:
  "parseTranscript [] = [\<lparr> start = 0, end' = 3, text' = [], score = 0 \<rparr>]"
  by code_simp

lemma parseTranscript_webhook_empty:
  "parseTranscript_webhook [] = [\<lparr> start = 0, end' = 3, text' = [], score = 0 \<rparr>]"
  by code_simp

lemma parseTranscript_webhook_blank:
  "parseTranscript_webhook '' '' = [\<lparr> start = 0, end' = 3, text' = [], score = 0 \<rparr>]"
  by code_simp

lemma parseTranscript_great:
  "parseTranscript ''Great news today!'' =
     [\<lparr> start = 0, end' = 3, text' = ''Great news today!'', score = 0 \<rparr>]"
  by code_simp

lemma parseTranscript_webhook_great:
  "parseTranscript_webhook ''Great news today!'' =
     [\<lparr> start = 0, end' = 3, text' = ''Great news today!'', score = 0 \<rparr>]"
  by code_simp

lemma parseTranscript_hi:
  "parseTranscript ''Hi.'' = [\<lparr> start = 0, end' = 3, text' = ''Hi.'', score = 0 \<rparr>]"
  by code_simp

lemma parseTranscript_hi_bye:
  "parseTranscript ''Hi. Bye.'' =
     [\<lparr> start = 0, end' = 3, text' = ''Hi.'', score = 0 \<rparr>,
      \<lparr> start = 3, end' = 6, text' = ''Bye.'', score = 0 \<rparr>]"
  by code_simp



lemma bracket_overlap:
  "parseTranscript (''[00:00:00] a'' @ [NL] @ ''[00:00:02] b'') =
     [\<lparr> start = 0, end' = 5, text' = ''a'', score = 0 \<rparr>,
      \<lparr> start = 2, end' = 7, text' = ''b'', score = 0 \<rparr>]"
  by code_simp

lemma bracket_gap:
  "parseTranscript (''[00:00:00] a'' @ [NL] @ ''[00:00:10] b'') =
     [\<lparr> start = 0, end' = 5, text' = ''a'', score = 0 \<rparr>,
      \<lparr> start = 10, end' = 15, text' = ''b'', score = 0 \<rparr>]"
  by code_simp

lemma bracket_webhook:
  "parseTranscript_webhook (''[00:00:00] a'' @ [NL] @ ''[00:00:02] b'') =
     [\<lparr> start = 0, end' = 3, text' = ''[00:00:00] a'' @ [NL] @ ''[00:00:02] b'', score = 0 \<rparr>]"
  by code_simp

lemma parseFloat_null: "parseFloat ''null'' = NaN"
  by code_simp

lemma parseFloat_zero: "parseFloat ''0'' = Num 0"
  by code_simp

section \<open>The claims\<close>

text \<open>
  C1. The specification takes \<open>averageSentiment\<close> to be the sum of the scores the
  scorer assigns to all segments over their number. Both handlers sum the scores of
  the segments as parsed, which are 0: on the one-sentence transcript
  \<open>Great news today!\<close> they return 0, where the specified value is the score of
  that sentence.
\<close>

theorem C1_averageSentiment_ignores_scores:
  "(\<exists>r. POST analyze show (Some ''Great news today!'') (Some ''v.mp4'') (Some ''0'') = Success r
        \<and> averageSentiment r = 0)
   \<and> (\<exists>r. POST_webhook analyze show (Some ''Great news today!'') None (Some ''v.mp4'') (Some (Num 0))
             = Success r
        \<and> averageSentiment r = 0)
   \<and> spec_averageSentiment analyze (parseTranscript ''Great news today!'')
       = analyze ''Great news today!''
   \<and> spec_averageSentiment analyze (parseTranscript_webhook ''Great news today!'')
       = analyze ''Great news today!''"
  by (simp add: POST_def POST_webhook_def spec_averageSentiment_def Let_def
        parseTranscript_great parseTranscript_webhook_great)

text \<open>
  C2. An upload whose transcript file is empty is answered with a success result
  of one segment, not with an error; so is a webhook request whose transcript is
  one space. The webhook handler refuses the empty transcript as a missing field.
\<close>

theorem C2_empty_transcript_succeeds:
  "(\<exists>r. POST analyze show (Some []) (Some ''v.mp4'') (Some ''0'') = Success r
        \<and> totalSegments r = 1)
   \<and> (\<exists>r. POST_webhook analyze show (Some '' '') None (Some ''v.mp4'') None = Success r
        \<and> totalSegments r = 1)
   \<and> POST_webhook analyze show (Some []) None (Some ''v.mp4'') None
       = Failure 400 ''transcript or transcriptContent is required''"
  by (simp add: POST_def POST_webhook_def Let_def
        parseTranscript_empty parseTranscript_webhook_blank)

text \<open>
  C3. \<open>parseTranscript\<close> returns at least one segment for every input, in both
  entry points: the sentences are the whole input when the pattern matches
  nowhere. So neither handler ever answers with its could-not-parse error. The
  empty input gives one segment with empty text, from 0 to 3.
\<close>

theorem C3_parseTranscript_never_empty:
  "parseTranscript content \<noteq> []
   \<and> parseTranscript_webhook content \<noteq> []
   \<and> sentences content = (if sentence_scan content = [] then [content] else sentence_scan content)
   \<and> POST analyze show transcriptFile url t
       \<noteq> Failure 400 ''Could not parse transcript. Please use SRT format or plain text with timestamps.''
   \<and> POST_webhook analyze show transcript transcriptContent url t'
       \<noteq> Failure 400 ''Could not parse transcript''
   \<and> parseTranscript [] = [\<lparr> start = 0, end' = 3, text' = [], score = 0 \<rparr>]
   \<and> parseTranscript_webhook [] = [\<lparr> start = 0, end' = 3, text' = [], score = 0 \<rparr>]"
proof -
  have s: "sentences content = (if sentence_scan content = [] then [content] else sentence_scan content)"
    by (simp add: sentences_def split: list.split)
  have u: "POST analyze show transcriptFile url t
       \<noteq> Failure 400 ''Could not parse transcript. Please use SRT format or plain text with timestamps.''"
    by (simp add: POST_def Let_def parseTranscript_nonempty split: option.split)
  have w: "POST_webhook analyze show transcript transcriptContent url t'
       \<noteq> Failure 400 ''Could not parse transcript''"
    by (simp add: POST_webhook_def Let_def parseTranscript_webhook_nonempty split: option.split)
  from s u w show ?thesis
    using parseTranscript_nonempty parseTranscript_webhook_nonempty
      parseTranscript_empty parseTranscript_webhook_empty
    by blast
qed

text \<open>
  C4. A webhook request without \<open>threshold\<close> is answered as with threshold 0.
  An upload without the \<open>threshold\<close> field is not: its threshold is \<open>NaN\<close>,
  no segment is kept and there is no command, where the field \<open>0\<close> keeps the
  segment of \<open>Hi.\<close> whenever its score is not negative.
\<close>

theorem C4_upload_threshold_has_no_default:
  "POST analyze show (Some ''Hi.'') (Some ''v.mp4'') None
     \<noteq> POST analyze show (Some ''Hi.'') (Some ''v.mp4'') (Some ''0'')
   \<and> (\<exists>r. POST analyze show (Some ''Hi.'') (Some ''v.mp4'') None = Success r
          \<and> threshold r = NaN \<and> matchingSegments r = 0 \<and> ffmpegCommand r = None)
   \<and> (\<exists>r. POST analyze show (Some ''Hi.'') (Some ''v.mp4'') (Some ''0'') = Success r
          \<and> threshold r = Num 0
          \<and> matchingSegments r = (if 0 \<le> analyze ''Hi.'' then 1 else 0))
   \<and> POST_webhook analyze show transcript transcriptContent url None
       = POST_webhook analyze show transcript transcriptContent url (Some (Num 0))"
  by (simp add: POST_def POST_webhook_def Let_def parseTranscript_hi parseFloat_null
        parseFloat_zero analyzeSentiment_def ffmpeg_def)

text \<open>
  C5. For a real threshold \<open>t\<close>, \<open>analyzeSentiment\<close> returns the scored segments
  whose score is at least \<open>t\<close>: a sub-sequence of the scored sequence, in its order,
  holding every scored segment as often as it occurs there when its score is at
  least \<open>t\<close> and not at all otherwise. A segment whose score is \<open>t\<close> is kept, and
  the result is empty exactly when every score is below \<open>t\<close>.
\<close>

theorem C5_filter_keeps_scores_at_least_threshold:
  "analyzeSentiment analyze segs (Num t)
     = filter (\<lambda>seg. t \<le> score seg)
         (map (\<lambda>segment. segment\<lparr> score := analyze (text' segment) \<rparr>) segs)
   \<and> subseq (analyzeSentiment analyze segs (Num t))
         (map (\<lambda>segment. segment\<lparr> score := analyze (text' segment) \<rparr>) segs)
   \<and> count_list (analyzeSentiment analyze segs (Num t)) seg
       = (if t \<le> score seg
          then count_list (map (\<lambda>segment. segment\<lparr> score := analyze (text' segment) \<rparr>) segs) seg
          else 0)
   \<and> analyzeSentiment analyze [seg] (Num (analyze (text' seg)))
       = [seg\<lparr> score := analyze (text' seg) \<rparr>]
   \<and> (analyzeSentiment analyze segs (Num t) = [])
       = list_all (\<lambda>seg. analyze (text' seg) < t) segs"
proof -
  define scored where "scored = map (\<lambda>segment. segment\<lparr> score := analyze (text' segment) \<rparr>) segs"
  have f: "analyzeSentiment analyze segs (Num t) = filter (\<lambda>seg. t \<le> score seg) scored"
    by (simp add: analyzeSentiment_def scored_def)
  have c: "count_list (filter P xs) x = (if P x then count_list xs x else 0)"
    for P and xs :: "segment list" and x
    by (induction xs) auto
  have e: "(filter (\<lambda>seg. t \<le> score seg) scored = [])
       = list_all (\<lambda>seg. analyze (text' seg) < t) segs"
    unfolding scored_def by (induction segs) auto
  have b: "analyzeSentiment analyze [seg] (Num (analyze (text' seg)))
       = [seg\<lparr> score := analyze (text' seg) \<rparr>]"
    by (simp add: analyzeSentiment_def)
  show ?thesis
    unfolding f scored_def [symmetric]
    using c [of "\<lambda>seg. t \<le> score seg" scored seg] e b by simp
qed

text \<open>
  C6. Raising the threshold never keeps more segments: for \<open>t1 < t2\<close> the number
  of segments kept at \<open>t1\<close> is at least the number kept at \<open>t2\<close>, for every list of
  segments, so for the segments of every transcript in both entry points.
\<close>

theorem C6_kept_count_antitone:
  assumes "t1 < t2"
  shows "length (analyzeSentiment analyze segs (Num t2))
           \<le> length (analyzeSentiment analyze segs (Num t1))
   \<and> length (analyzeSentiment analyze (parseTranscript content) (Num t2))
           \<le> length (analyzeSentiment analyze (parseTranscript content) (Num t1))
   \<and> length (analyzeSentiment analyze (parseTranscript_webhook content) (Num t2))
           \<le> length (analyzeSentiment analyze (parseTranscript_webhook content) (Num t1))"
proof -
  have "length (analyzeSentiment analyze xs (Num t2))
           \<le> length (analyzeSentiment analyze xs (Num t1))" for xs
    using assms by (induction xs) (auto simp: analyzeSentiment_def)
  then show ?thesis by blast
qed

theorem C6_kept_count_antitone_witness:
  "(0::real) < 4
   \<and> length (analyzeSentiment (\<lambda>t. real (length t)) (parseTranscript ''Hi. Bye.'') (Num 4)) = 1
   \<and> length (analyzeSentiment (\<lambda>t. real (length t)) (parseTranscript ''Hi. Bye.'') (Num 0)) = 2
   \<and> length (analyzeSentiment (\<lambda>t. real (length t)) (parseTranscript ''Hi. Bye.'') (Num 4))
       \<le> length (analyzeSentiment (\<lambda>t. real (length t)) (parseTranscript ''Hi. Bye.'') (Num 0))"
  using C6_kept_count_antitone [of 0 4 "\<lambda>t. real (length t)" "parseTranscript ''Hi. Bye.''" "[]"]
  by (simp add: parseTranscript_hi_bye analyzeSentiment_def)

text \<open>
  C7. A request that passes the field checks and keeps no segment is answered
  with a success result whose kept list is empty and whose \<open>ffmpegCommand\<close> is
  \<open>null\<close>, in both entry points. In every success result the command is \<open>null\<close>
  exactly when no segment is kept, and it is never the empty string.
\<close>

theorem C7_no_command_when_nothing_kept:
  assumes "url \<noteq> []" and "content \<noteq> []"
    and "analyzeSentiment analyze (parseTranscript content)
           (parseFloat (case t of None \<Rightarrow> ''null'' | Some v \<Rightarrow> v)) = []"
    and "analyzeSentiment analyze (parseTranscript_webhook content)
           (case t' of None \<Rightarrow> Num 0 | Some n \<Rightarrow> n) = []"
  shows "(\<exists>r. POST analyze show (Some content) (Some url) t = Success r
            \<and> segments r = [] \<and> matchingSegments r = 0 \<and> ffmpegCommand r = None)
   \<and> (\<exists>r. POST_webhook analyze show (Some content) None (Some url) t' = Success r
            \<and> segments r = [] \<and> matchingSegments r = 0 \<and> ffmpegCommand r = None)
   \<and> (case POST analyze show f u t of
         Failure status message \<Rightarrow> True
       | Success r \<Rightarrow> (ffmpegCommand r = None) = (segments r = []) \<and> ffmpegCommand r \<noteq> Some [])
   \<and> (case POST_webhook analyze show tr tc u t' of
         Failure status message \<Rightarrow> True
       | Success r \<Rightarrow> (ffmpegCommand r = None) = (segments r = []) \<and> ffmpegCommand r \<noteq> Some [])"
proof -
  have a: "\<exists>r. POST analyze show (Some content) (Some url) t = Success r
            \<and> segments r = [] \<and> matchingSegments r = 0 \<and> ffmpegCommand r = None"
    using assms(1,3) by (simp add: POST_def Let_def parseTranscript_nonempty ffmpeg_None)
  have b: "\<exists>r. POST_webhook analyze show (Some content) None (Some url) t' = Success r
            \<and> segments r = [] \<and> matchingSegments r = 0 \<and> ffmpegCommand r = None"
    using assms(1,2,4)
    by (simp add: POST_webhook_def Let_def parseTranscript_webhook_nonempty ffmpeg_None)
  have c: "(case POST analyze show f u t of
         Failure status message \<Rightarrow> True
       | Success r \<Rightarrow> (ffmpegCommand r = None) = (segments r = []) \<and> ffmpegCommand r \<noteq> Some [])"
    by (simp add: POST_def Let_def ffmpeg_None ffmpeg_not_empty split: option.split)
  have d: "(case POST_webhook analyze show tr tc u t' of
         Failure status message \<Rightarrow> True
       | Success r \<Rightarrow> (ffmpegCommand r = None) = (segments r = []) \<and> ffmpegCommand r \<noteq> Some [])"
    by (simp add: POST_webhook_def Let_def ffmpeg_None ffmpeg_not_empty split: option.split)
  from a b c d show ?thesis by blast
qed

theorem C7_no_command_when_nothing_kept_witness:
  "''v.mp4'' \<noteq> [] \<and> ''Hi.'' \<noteq> []
   \<and> analyzeSentiment (\<lambda>text. - 1) (parseTranscript ''Hi.'') (parseFloat ''0'') = []
   \<and> analyzeSentiment (\<lambda>text. - 1) (parseTranscript_webhook ''Hi.'') (Num 0) = []
   \<and> (\<exists>r. POST (\<lambda>text. - 1) (\<lambda>x. ''0'') (Some ''Hi.'') (Some ''v.mp4'') (Some ''0'') = Success r
          \<and> segments r = [] \<and> matchingSegments r = 0 \<and> ffmpegCommand r = None)
   \<and> (\<exists>r. POST_webhook (\<lambda>text. - 1) (\<lambda>x. ''0'') (Some ''Hi.'') None (Some ''v.mp4'') None = Success r
          \<and> segments r = [] \<and> matchingSegments r = 0 \<and> ffmpegCommand r = None)"
proof -
  have h: "parseTranscript ''Hi.'' = [\<lparr> start = 0, end' = 3, text' = ''Hi.'', score = 0 \<rparr>]"
    "parseTranscript_webhook ''Hi.'' = [\<lparr> start = 0, end' = 3, text' = ''Hi.'', score = 0 \<rparr>]"
    by code_simp+
  have k: "analyzeSentiment (\<lambda>text. - 1) (parseTranscript ''Hi.'')
             (parseFloat (case Some ''0'' of None \<Rightarrow> ''null'' | Some v \<Rightarrow> v)) = []"
    "analyzeSentiment (\<lambda>text. - 1) (parseTranscript_webhook ''Hi.'')
             (case None of None \<Rightarrow> Num 0 | Some n \<Rightarrow> n) = []"
    by (simp_all add: h parseFloat_zero analyzeSentiment_def)
  have n: "''v.mp4'' \<noteq> []" "''Hi.'' \<noteq> []" by simp_all
  from C7_no_command_when_nothing_kept [OF n k, of "\<lambda>x. ''0''" None None None None] k n
  show ?thesis by simp
qed



text \<open>
  C9. In the upload entry point the bracketed strategy gives the result exactly
  when the subtitle-block strategy yields no segment and it yields one itself;
  the plain-text strategy follows. Each line with a match of \<open>[HH:MM:SS]\<close>
  gives one segment that starts at \<open>h*3600 + m*60 + s\<close> and ends 5 seconds
  later, whatever the next line is: consecutive segments overlap (starts 0 and 2)
  or leave a gap (starts 0 and 10). The webhook entry point goes from the
  subtitle-block strategy to the plain-text one and reads bracketed lines as
  plain text.
\<close>

theorem C9_bracketed_strategy_upload_only:
  "parseTranscript content =
     (if srt_scan content \<noteq> [] then srt_scan content
      else if bracket_segments content \<noteq> [] then bracket_segments content
      else plain_segments content)
   \<and> parseTranscript_webhook content =
     (if srt_scan content \<noteq> [] then srt_scan content else plain_segments content)
   \<and> bracket_segments content =
     concat (map (\<lambda>line. case bracket_match line of
                None \<Rightarrow> []
              | Some (h, m, s, body) \<Rightarrow>
                  [\<lparr> start = real (parseInt h) * 3600 + real (parseInt m) * 60 + real (parseInt s),
                     end' = real (parseInt h) * 3600 + real (parseInt m) * 60 + real (parseInt s) + 5,
                     text' = trim body, score = 0 \<rparr>])
             (filter (\<lambda>line. trim line \<noteq> []) (split_lines content)))
   \<and> list_all (\<lambda>seg. end' seg = start seg + 5) (bracket_segments content)
   \<and> parseTranscript (''[00:00:00] a'' @ [NL] @ ''[00:00:02] b'') =
       [\<lparr> start = 0, end' = 5, text' = ''a'', score = 0 \<rparr>,
        \<lparr> start = 2, end' = 7, text' = ''b'', score = 0 \<rparr>]
   \<and> parseTranscript (''[00:00:00] a'' @ [NL] @ ''[00:00:10] b'') =
       [\<lparr> start = 0, end' = 5, text' = ''a'', score = 0 \<rparr>,
        \<lparr> start = 10, end' = 15, text' = ''b'', score = 0 \<rparr>]
   \<and> parseTranscript_webhook (''[00:00:00] a'' @ [NL] @ ''[00:00:02] b'') =
       [\<lparr> start = 0, end' = 3, text' = ''[00:00:00] a'' @ [NL] @ ''[00:00:02] b'', score = 0 \<rparr>]"
proof -
  have u: "parseTranscript content =
     (if srt_scan content \<noteq> [] then srt_scan content
      else if bracket_segments content \<noteq> [] then bracket_segments content
      else plain_segments content)"
    by (simp add: parseTranscript_def Let_def)
  have w: "parseTranscript_webhook content =
     (if srt_scan content \<noteq> [] then srt_scan content else plain_segments content)"
    by (simp add: parseTranscript_webhook_def Let_def)
  show ?thesis
    using u w bracket_segments_lines [of content] bracket_segments_five [of content]
      bracket_overlap bracket_gap bracket_webhook
    by (intro conjI)
qed



end
